theory Spec2Isabelle
  imports Main "HOL-Library.Sublist" "HOL-Library.Char_ord" "HOL-Library.List_Lexorder"
begin

section \<open>Values and text\<close>

text \<open>
  A cell of a pandas row, or a column label: a Python \<open>str\<close>, \<open>None\<close>, the float
  \<open>nan\<close> that pandas stores for a blank field, or a whole number. Text is a list of
  8-bit characters and is read as ASCII: case mapping and the whitespace class below are
  those of Python's \<open>str\<close> on code points below 128, and characters from 128 on are
  passed through unchanged. Amounts are whole numbers (for instance cents).
\<close>

datatype cell = Text string | Null | NaN | Num int

type_synonym row = "cell \<rightharpoonup> cell"

text \<open>\<open>isinstance(s, str)\<close>.\<close>

fun isinstance_str :: "cell \<Rightarrow> bool" where
  "isinstance_str (Text s) = True"
| "isinstance_str v = False"

text \<open>\<open>row.get(key, '')\<close>: the cell stored under the label, the empty text when absent.\<close>

definition row_get :: "row \<Rightarrow> cell \<Rightarrow> cell" where
  "row_get r key = (case r key of None \<Rightarrow> Text [] | Some v \<Rightarrow> v)"

subsection \<open>Python's \<open>str()\<close> of a cell\<close>

definition digit_char :: "nat \<Rightarrow> char" where
  "digit_char d = ''0123456789'' ! d"

fun digits :: "nat \<Rightarrow> string" where
  "digits n = (if n < 10 then [digit_char n] else digits (n div 10) @ [digit_char (n mod 10)])"

declare digits.simps [simp del]

definition str_int :: "int \<Rightarrow> string" where
  "str_int i = (if i < 0 then CHR ''-'' # digits (nat (- i)) else digits (nat i))"

fun py_str :: "cell \<Rightarrow> string" where
  "py_str (Text s) = s"
| "py_str Null = ''None''"
| "py_str NaN = ''nan''"
| "py_str (Num i) = str_int i"

subsection \<open>Case mapping, whitespace, substrings\<close>

text \<open>\<open>str.upper()\<close> and \<open>str.lower()\<close> on ASCII: only the 26 letters change.\<close>

definition upper_char :: "char \<Rightarrow> char" where
  "upper_char c =
     (case map_of (zip ''abcdefghijklmnopqrstuvwxyz'' ''ABCDEFGHIJKLMNOPQRSTUVWXYZ'') c of
        Some u \<Rightarrow> u | None \<Rightarrow> c)"

definition lower_char :: "char \<Rightarrow> char" where
  "lower_char c =
     (case map_of (zip ''ABCDEFGHIJKLMNOPQRSTUVWXYZ'' ''abcdefghijklmnopqrstuvwxyz'') c of
        Some l \<Rightarrow> l | None \<Rightarrow> c)"

definition upper :: "string \<Rightarrow> string" where
  "upper s = map upper_char s"

definition lower :: "string \<Rightarrow> string" where
  "lower s = map lower_char s"

text \<open>
  The class \<open>\s\<close> of \<open>re\<close> and of \<open>str.strip()\<close> below 128: tab, line feed, vertical
  tab, form feed, carriage return, the four separators 0x1C to 0x1F, and the space.
\<close>

definition isspace :: "char \<Rightarrow> bool" where
  "isspace c \<longleftrightarrow> c \<in> set [CHR 0x09, CHR 0x0A, CHR 0x0B, CHR 0x0C, CHR 0x0D,
                         CHR 0x1C, CHR 0x1D, CHR 0x1E, CHR 0x1F, CHR '' '']"

text \<open>
  \<open>re.sub(r'\s+', ' ', s)\<close>: scanning from the left, every maximal run of whitespace
  is replaced by one space.
\<close>

function re_sub_spaces :: "string \<Rightarrow> string" where
  "re_sub_spaces [] = []"
| "re_sub_spaces (c # cs) =
     (if isspace c then CHR '' '' # re_sub_spaces (dropWhile isspace cs)
      else c # re_sub_spaces cs)"
  by pat_completeness auto
termination
  by (relation "measure length") (auto simp: length_dropWhile_le less_Suc_eq_le)

text \<open>\<open>s.strip()\<close>: whitespace removed at both ends.\<close>

definition lstrip :: "string \<Rightarrow> string" where
  "lstrip s = dropWhile isspace s"

definition rstrip :: "string \<Rightarrow> string" where
  "rstrip s = rev (dropWhile isspace (rev s))"

definition strip :: "string \<Rightarrow> string" where
  "strip s = rstrip (lstrip s)"

text \<open>\<open>k in t\<close> on strings: \<open>k\<close> occurs in \<open>t\<close> as a contiguous substring.\<close>

fun str_in :: "string \<Rightarrow> string \<Rightarrow> bool" where
  "str_in k [] = (k = [])"
| "str_in k (c # cs) = (prefix k (c # cs) \<or> str_in k cs)"

text \<open>\<open>t.startswith(k)\<close>.\<close>

definition startswith :: "string \<Rightarrow> string \<Rightarrow> bool" where
  "startswith t k = prefix k t"

section \<open>The text normalizer\<close>

definition normalize_text :: "cell \<Rightarrow> string" where
  "normalize_text s =
     (case s of
        Text t \<Rightarrow> strip (re_sub_spaces (upper t))
      | _ \<Rightarrow> [])"

section \<open>The GL classifier\<close>

text \<open>The two fields read by both copies: \<open>str(row.get(..., '')).upper()\<close>.\<close>

definition gl_source :: "row \<Rightarrow> string" where
  "gl_source r = upper (py_str (row_get r (Text ''Source'')))"

definition gl_desc :: "row \<Rightarrow> string" where
  "gl_desc r = upper (py_str (row_get r (Text ''Journal Line Description'')))"

text \<open>\<open>categorize_gl\<close> of \<open>gl_bank_agentic_model.py\<close>.\<close>

definition categorize_gl :: "row \<Rightarrow> string" where
  "categorize_gl r =
     (let source = gl_source r; desc = gl_desc r in
      if str_in ''117'' desc then ''117''
      else if str_in ''153'' desc then ''153''
      else if str_in ''119'' desc then ''119''
      else if str_in ''NC BANK'' desc then ''NC Bank''
      else if str_in ''AP'' source then ''AP''
      else if str_in ''H11'' source then ''TAX''
      else ''UNMATCHED'')"

text \<open>\<open>categorize_gl\<close> of \<open>GL_BANK_LANGCHAIN.py\<close>: the sixth test also accepts \<open>TAX\<close>.\<close>

definition categorize_gl_lc :: "row \<Rightarrow> string" where
  "categorize_gl_lc r =
     (let source = gl_source r; desc = gl_desc r in
      if str_in ''117'' desc then ''117''
      else if str_in ''153'' desc then ''153''
      else if str_in ''119'' desc then ''119''
      else if str_in ''NC BANK'' desc then ''NC Bank''
      else if str_in ''AP'' source then ''AP''
      else if str_in ''H11'' source \<or> str_in ''TAX'' source then ''TAX''
      else ''UNMATCHED'')"

section \<open>The bank classifier\<close>

definition nc_keywords :: "string list" where
  "nc_keywords = [''INDN:SETT-BATCH'', ''3351637714'', ''CO ID:3351637714'', ''CCD'']"

definition keywords_119 :: "string list" where
  "keywords_119 =
     [''BNF:HERFF JONES LLC 4501 WEST 62ND STREET INDIANAPOLIS'',
      ''BNF BK:PNC BANK NATIONAL'',
      ''24295001305'',
      ''HERFF JONES LLC OPERATING ACCOUNT 4501'',
      ''JPMORGAN CHASE'',
      ''SND BK:WELLS FARGO BANK'',
      ''WELLS FARGO SWEEP'',
      ''24354001505'',
      ''JPMORGAN CHASE BANK'']"

definition ap_words :: "string list" where
  "ap_words = [''CORP PMT'', ''VARSITY'', ''GOODS'', ''INV'', ''INTL OUT DATE:'', ''POP'',
               ''BALBOA'', ''VISION GEMS'']"

text \<open>\<open>categorize_bank\<close>, the same text in both files.\<close>

definition categorize_bank :: "row \<Rightarrow> cell \<Rightarrow> cell \<Rightarrow> string" where
  "categorize_bank r col_text col_type =
     (let raw_text = row_get r col_text;
          raw_type = row_get r col_type;
          T = normalize_text raw_text;
          I = normalize_text raw_type in
      if list_all (\<lambda>k. str_in k T) nc_keywords then ''NC Bank''
      else if list_ex (\<lambda>k. str_in k T) keywords_119 then ''119''
      else if str_in ''TRSF'' T \<or> str_in ''CUR'' T then ''117''
      else if str_in ''BNF:LSC COMMUNICATIONS'' T then ''153''
      else if (I = ''DETAIL DEBITS'' \<and> list_ex (\<lambda>w. str_in w T) ap_words)
              \<or> (startswith T ''WIRE TYPE'' \<and> str_in ''INV'' T)
              \<or> (str_in ''ACH DETAIL RETURN CO ID:5351637714 CCD'' T \<and> I = ''DETAIL CREDITS'')
           then ''AP''
      else if (str_in ''TAX '' T \<or> str_in ''TAXPAY'' T) \<and> I = ''DETAIL DEBITS'' then ''TAX''
      else ''UNMATCHED'')"

section \<open>The rule chains as the specification words them\<close>

text \<open>
  A rule is a predicate with the label it assigns; a chain is read top to bottom and the
  first rule whose predicate holds gives the label, \<open>UNMATCHED\<close> when none does.
\<close>

type_synonym 'a rule = "('a \<Rightarrow> bool) \<times> string"

fun first_match :: "'a rule list \<Rightarrow> 'a \<Rightarrow> string" where
  "first_match [] x = ''UNMATCHED''"
| "first_match (r # rs) x = (if fst r x then snd r else first_match rs x)"


text \<open>The six bank rules over the normalized text \<open>T\<close> and the normalized type \<open>I\<close>.\<close>

definition rule_nc_bank :: "string \<Rightarrow> bool" where
  "rule_nc_bank T \<longleftrightarrow>
     (\<forall>k \<in> {''INDN:SETT-BATCH'', ''3351637714'', ''CO ID:3351637714'', ''CCD''}. str_in k T)"

definition rule_119 :: "string \<Rightarrow> bool" where
  "rule_119 T \<longleftrightarrow>
     (\<exists>k \<in> {''BNF:HERFF JONES LLC 4501 WEST 62ND STREET INDIANAPOLIS'',
             ''BNF BK:PNC BANK NATIONAL'', ''24295001305'',
             ''HERFF JONES LLC OPERATING ACCOUNT 4501'', ''JPMORGAN CHASE'',
             ''SND BK:WELLS FARGO BANK'', ''WELLS FARGO SWEEP'', ''24354001505'',
             ''JPMORGAN CHASE BANK''}. str_in k T)"

definition rule_117 :: "string \<Rightarrow> bool" where
  "rule_117 T \<longleftrightarrow> str_in ''TRSF'' T \<or> str_in ''CUR'' T"

definition rule_153 :: "string \<Rightarrow> bool" where
  "rule_153 T \<longleftrightarrow> str_in ''BNF:LSC COMMUNICATIONS'' T"

definition rule_ap :: "string \<Rightarrow> string \<Rightarrow> bool" where
  "rule_ap T I \<longleftrightarrow>
     (I = ''DETAIL DEBITS'' \<and>
        (\<exists>w \<in> {''CORP PMT'', ''VARSITY'', ''GOODS'', ''INV'', ''INTL OUT DATE:'', ''POP'',
                ''BALBOA'', ''VISION GEMS''}. str_in w T))
     \<or> (prefix ''WIRE TYPE'' T \<and> str_in ''INV'' T)
     \<or> (str_in ''ACH DETAIL RETURN CO ID:5351637714 CCD'' T \<and> I = ''DETAIL CREDITS'')"

definition rule_tax :: "string \<Rightarrow> string \<Rightarrow> bool" where
  "rule_tax T I \<longleftrightarrow> (str_in ''TAX '' T \<or> str_in ''TAXPAY'' T) \<and> I = ''DETAIL DEBITS''"

definition spec_bank_chain :: "(string \<times> string) rule list" where
  "spec_bank_chain =
     [(\<lambda>(T, I). rule_nc_bank T, ''NC Bank''),
      (\<lambda>(T, I). rule_119 T, ''119''),
      (\<lambda>(T, I). rule_117 T, ''117''),
      (\<lambda>(T, I). rule_153 T, ''153''),
      (\<lambda>(T, I). rule_ap T I, ''AP''),
      (\<lambda>(T, I). rule_tax T I, ''TAX'')]"

text \<open>The closed set of category labels.\<close>

definition labels :: "string set" where
  "labels = {''117'', ''119'', ''153'', ''NC Bank'', ''AP'', ''TAX'', ''UNMATCHED''}"

text \<open>A cell that is missing from the row or holds no text.\<close>

definition absent_or_nontext :: "row \<Rightarrow> cell \<Rightarrow> bool" where
  "absent_or_nontext r key = (case r key of None \<Rightarrow> True | Some v \<Rightarrow> \<not> isinstance_str v)"

section \<open>Sample rows\<close>


definition gl_row_tax_117 :: row where
  "gl_row_tax_117 =
     [Text ''Source'' \<mapsto> Text ''TAX'', Text ''Journal Line Description'' \<mapsto> Text ''117'']"

definition gl_row_tax_only :: row where
  "gl_row_tax_only = [Text ''Source'' \<mapsto> Text ''Sales Tax'']"

definition bank_row :: "string \<Rightarrow> string \<Rightarrow> row" where
  "bank_row text type = [Text ''Text'' \<mapsto> Text text, Text ''Data Type'' \<mapsto> Text type]"

definition bank_row_nc_and_ap :: row where
  "bank_row_nc_and_ap =
     bank_row ''indn:sett-batch  co id:3351637714 ccd goods inv'' ''Detail Debits''"

definition bank_row_blank :: row where
  "bank_row_blank = [Text ''Text'' \<mapsto> NaN, Text ''Data Type'' \<mapsto> Null]"

section \<open>Normalization as the specification words it\<close>

text \<open>
  The words of a text are its maximal runs of characters that are not whitespace
  (Python's \<open>s.split()\<close>). Upper-casing a text, collapsing every run of whitespace
  to one space and trimming both ends leaves its upper-cased words, joined by single
  spaces.
\<close>

function ws_words :: "string \<Rightarrow> string list" where
  "ws_words [] = []"
| "ws_words (c # cs) =
     (if isspace c then ws_words cs
      else takeWhile (\<lambda>x. \<not> isspace x) (c # cs) # ws_words (dropWhile (\<lambda>x. \<not> isspace x) cs))"
  by pat_completeness auto
termination
  by (relation "measure length") (auto simp: length_dropWhile_le less_Suc_eq_le)





section \<open>Column lookup\<close>

text \<open>\<open>s.replace(' ', '')\<close>.\<close>

definition remove_spaces :: "string \<Rightarrow> string" where
  "remove_spaces s = filter (\<lambda>c. c \<noteq> CHR '' '') s"

text \<open>The loop of \<open>find_col\<close> over the column labels, \<open>kl\<close> being the folded key.\<close>

fun find_col_loop :: "string \<Rightarrow> cell list \<Rightarrow> cell option" where
  "find_col_loop kl [] = None"
| "find_col_loop kl (c # cs) =
     (let cl = lower (remove_spaces (py_str c)) in
      if str_in kl cl then Some c else find_col_loop kl cs)"

definition find_col :: "cell list \<Rightarrow> string \<Rightarrow> cell option" where
  "find_col columns key = (let kl = lower (remove_spaces key) in find_col_loop kl columns)"

text \<open>Python's truth value of a cell, and \<open>not c\<close> on what \<open>find_col\<close> returns.\<close>

fun truthy :: "cell \<Rightarrow> bool" where
  "truthy (Text s) = (s \<noteq> [])"
| "truthy Null = False"
| "truthy NaN = True"
| "truthy (Num i) = (i \<noteq> 0)"

fun py_not :: "cell option \<Rightarrow> bool" where
  "py_not None = True"
| "py_not (Some c) = (\<not> truthy c)"

section \<open>The error message\<close>

text \<open>
  \<open>repr()\<close> of a string: single quotes, unless the text holds a single quote and no
  double quote; the quote in use and the backslash are escaped, tab, line feed and
  carriage return are written \<open>\t\<close>, \<open>\n\<close>, \<open>\r\<close>, other control characters as
  \<open>\xhh\<close>.
\<close>

definition hex_digit :: "nat \<Rightarrow> char" where
  "hex_digit d = ''0123456789abcdef'' ! d"

definition repr_char :: "char \<Rightarrow> char \<Rightarrow> string" where
  "repr_char q c =
     (if c = q \<or> c = CHR 0x5C then [CHR 0x5C, c]
      else if c = CHR 0x09 then [CHR 0x5C, CHR ''t'']
      else if c = CHR 0x0A then [CHR 0x5C, CHR ''n'']
      else if c = CHR 0x0D then [CHR 0x5C, CHR ''r'']
      else if (of_char c :: nat) < 32 \<or> c = CHR 0x7F
        then [CHR 0x5C, CHR ''x'', hex_digit (of_char c div 16), hex_digit (of_char c mod 16)]
      else [c])"

definition repr_str :: "string \<Rightarrow> string" where
  "repr_str s =
     (let q = (if CHR 0x27 \<in> set s \<and> CHR 0x22 \<notin> set s then CHR 0x22 else CHR 0x27)
      in q # concat (map (repr_char q) s) @ [q])"

fun py_repr :: "cell \<Rightarrow> string" where
  "py_repr (Text s) = repr_str s"
| "py_repr Null = ''None''"
| "py_repr NaN = ''nan''"
| "py_repr (Num i) = str_int i"

fun join_comma :: "string list \<Rightarrow> string" where
  "join_comma [] = []"
| "join_comma [x] = x"
| "join_comma (x # y # xs) = x @ '', '' @ join_comma (y # xs)"

text \<open>What the f-string prints for \<open>list(bank_df.columns)\<close>.\<close>

definition repr_list :: "cell list \<Rightarrow> string" where
  "repr_list cs = ''['' @ join_comma (map py_repr cs) @ '']''"

section \<open>Aggregation\<close>

text \<open>
  A table is its column labels and its rows. \<open>df.apply(f, axis=1)\<close> is the map of \<open>f\<close>
  over the rows; a column read by label gives one cell per row, \<open>nan\<close> for a blank.
\<close>

record table =
  columns :: "cell list"
  rows :: "row list"

definition column_cells :: "table \<Rightarrow> cell \<Rightarrow> cell list" where
  "column_cells df label = map (\<lambda>r. case r label of None \<Rightarrow> NaN | Some v \<Rightarrow> v) (rows df)"

text \<open>
  The amount columns are numeric: a cell holds a number or is blank, and the sum of a
  group skips the blanks.
\<close>

fun amount_of :: "cell \<Rightarrow> int" where
  "amount_of (Num i) = i"
| "amount_of v = 0"

text \<open>
  \<open>df.groupby('Remark')[col].sum()\<close>: one entry per distinct label, the labels in
  ascending order, each with the sum of its group.
\<close>

definition groupby_sum :: "string list \<Rightarrow> cell list \<Rightarrow> (string \<times> int) list" where
  "groupby_sum remark cells =
     map (\<lambda>k. (k, sum_list (map (\<lambda>p. amount_of (snd p))
                     (filter (\<lambda>p. fst p = k) (zip remark cells)))))
       (sort (remdups remark))"

text \<open>
  \<open>pd.concat([gl_sum, bank_sum], axis=1).fillna(0).reset_index()\<close>: the outer join on
  the label, the labels of the first series followed by the new ones of the second, and
  0 where a series has no entry.
\<close>

definition concat_fillna ::
  "(string \<times> int) list \<Rightarrow> (string \<times> int) list \<Rightarrow> (string \<times> int \<times> int) list" where
  "concat_fillna gl_sum bank_sum =
     map (\<lambda>k. (k, (case map_of gl_sum k of None \<Rightarrow> 0 | Some g \<Rightarrow> g),
                   (case map_of bank_sum k of None \<Rightarrow> 0 | Some b \<Rightarrow> b)))
       (map fst gl_sum @ filter (\<lambda>k. k \<notin> set (map fst gl_sum)) (map fst bank_sum))"

section \<open>The script\<close>

text \<open>
  How a run ends: to its last line, at \<open>st.stop()\<close> after \<open>st.error(message)\<close>, or with
  the \<open>KeyError\<close> pandas raises for a column label the table does not have.
\<close>

datatype outcome = Completed | Stopped string | KeyError cell

text \<open>
  What a run leaves behind: the \<open>Remark\<close> column of each table once it is assigned, the
  summary table once it is built, and how the run ended.
\<close>

record session =
  gl_remark :: "string list option"
  bank_remark :: "string list option"
  summary_df :: "(string \<times> int \<times> int) list option"
  outcome :: outcome

text \<open>
  The body of \<open>if uploaded_gl and uploaded_bank:\<close> up to the summary, the same in both
  files but for the GL classifier and the text of the error message.
\<close>

definition run_script :: "(row \<Rightarrow> string) \<Rightarrow> string \<Rightarrow> table \<Rightarrow> table \<Rightarrow> session" where
  "run_script classify_gl error_text gl_df bank_df =
     (let gl_labels = map classify_gl (rows gl_df);
          col_text = find_col (columns bank_df) ''Text'';
          col_type = find_col (columns bank_df) ''Data Type'';
          col_revsd_amt = find_col (columns bank_df) ''Revsd amt'';
          stopped = \<lparr>gl_remark = Some gl_labels, bank_remark = None, summary_df = None,
                     outcome = Stopped (error_text @ repr_list (columns bank_df))\<rparr>
      in if py_not col_text \<or> py_not col_type \<or> py_not col_revsd_amt then stopped
         else case (col_text, col_type, col_revsd_amt) of
           (Some ct, Some cty, Some ca) \<Rightarrow>
             (let bank_labels = map (\<lambda>r. categorize_bank r ct cty) (rows bank_df) in
              if Text ''Foreign Amount'' \<notin> set (columns gl_df)
              then \<lparr>gl_remark = Some gl_labels, bank_remark = Some bank_labels,
                     summary_df = None, outcome = KeyError (Text ''Foreign Amount'')\<rparr>
              else
                let gl_sum = groupby_sum gl_labels (column_cells gl_df (Text ''Foreign Amount''));
                    bank_sum = groupby_sum bank_labels (column_cells bank_df ca)
                in \<lparr>gl_remark = Some gl_labels, bank_remark = Some bank_labels,
                      summary_df = Some (concat_fillna gl_sum bank_sum),
                      outcome = Completed\<rparr>)
         | _ \<Rightarrow> stopped)"

text \<open>\<open>gl_bank_agentic_model.py\<close>.\<close>

definition run_agentic :: "table \<Rightarrow> table \<Rightarrow> session" where
  "run_agentic =
     run_script categorize_gl
       ''Could not detect needed columns in Bank file. Columns found: ''"

text \<open>\<open>GL_BANK_LANGCHAIN.py\<close>.\<close>

definition run_langchain :: "table \<Rightarrow> table \<Rightarrow> session" where
  "run_langchain =
     run_script categorize_gl_lc ''Bank file missing required columns! Found: ''"


section \<open>Sample tables\<close>

definition gl_sample :: table where
  "gl_sample =
     \<lparr>columns = [Text ''Source'', Text ''Journal Line Description'', Text ''Foreign Amount''],
      rows = [[Text ''Source'' \<mapsto> Text ''AP-SYS'',
               Text ''Journal Line Description'' \<mapsto> Text ''vendor payment'',
               Text ''Foreign Amount'' \<mapsto> Num 1200],
              [Text ''Source'' \<mapsto> Text ''GL'',
               Text ''Journal Line Description'' \<mapsto> Text ''transfer 117'',
               Text ''Foreign Amount'' \<mapsto> Num (- 50)],
              [Text ''Source'' \<mapsto> Text ''AP'',
               Text ''Journal Line Description'' \<mapsto> NaN,
               Text ''Foreign Amount'' \<mapsto> Num 300]]\<rparr>"


definition bank_no_amount :: table where
  "bank_no_amount =
     \<lparr>columns = [Text ''Text'', Text ''Data Type'', Text ''Amount''],
      rows = [[Text ''Text'' \<mapsto> Text ''TAXPAY Q3 ESTIMATE'',
               Text ''Data Type'' \<mapsto> Text ''Detail Debits'',
               Text ''Amount'' \<mapsto> Num 75]]\<rparr>"

section \<open>Evaluation and helper lemmas\<close>

lemmas text_defs =
  normalize_text_def strip_def lstrip_def rstrip_def upper_def upper_char_def isspace_def

lemmas gl_defs = gl_source_def gl_desc_def row_get_def

lemma str_in_iff: "str_in k t \<longleftrightarrow> (\<exists>u v. t = u @ k @ v)"
proof (induction t)
  case Nil
  then show ?case by auto
next
  case (Cons c cs)
  have "(\<exists>u v. c # cs = u @ k @ v) \<longleftrightarrow> prefix k (c # cs) \<or> (\<exists>u v. cs = u @ k @ v)"
  proof
    assume "\<exists>u v. c # cs = u @ k @ v"
    then obtain u v where uv: "c # cs = u @ k @ v" by blast
    show "prefix k (c # cs) \<or> (\<exists>u v. cs = u @ k @ v)"
    proof (cases u)
      case Nil
      with uv show ?thesis by (auto simp: prefix_def)
    next
      case (Cons a u')
      with uv have "cs = u' @ k @ v" by simp
      then show ?thesis by blast
    qed
  next
    assume "prefix k (c # cs) \<or> (\<exists>u v. cs = u @ k @ v)"
    then show "\<exists>u v. c # cs = u @ k @ v"
    proof
      assume "prefix k (c # cs)"
      then obtain v where "c # cs = k @ v" by (auto simp: prefix_def)
      then have "c # cs = [] @ k @ v" by simp
      then show ?thesis by blast
    next
      assume "\<exists>u v. cs = u @ k @ v"
      then obtain u v where "cs = u @ k @ v" by blast
      then have "c # cs = (c # u) @ k @ v" by simp
      then show ?thesis by blast
    qed
  qed
  with Cons show ?case by simp
qed

lemma rule_nc_bank_code: "list_all (\<lambda>k. str_in k T) nc_keywords \<longleftrightarrow> rule_nc_bank T"
  by (simp add: nc_keywords_def rule_nc_bank_def)

lemma rule_119_code: "list_ex (\<lambda>k. str_in k T) keywords_119 \<longleftrightarrow> rule_119 T"
  by (simp add: keywords_119_def rule_119_def)

lemma rule_ap_code:
  "(I = ''DETAIL DEBITS'' \<and> list_ex (\<lambda>w. str_in w T) ap_words)
     \<or> (startswith T ''WIRE TYPE'' \<and> str_in ''INV'' T)
     \<or> (str_in ''ACH DETAIL RETURN CO ID:5351637714 CCD'' T \<and> I = ''DETAIL CREDITS'')
   \<longleftrightarrow> rule_ap T I"
proof -
  have "list_ex (\<lambda>w. str_in w T) ap_words \<longleftrightarrow>
    (\<exists>w \<in> {''CORP PMT'', ''VARSITY'', ''GOODS'', ''INV'', ''INTL OUT DATE:'', ''POP'',
            ''BALBOA'', ''VISION GEMS''}. str_in w T)"
    by (simp add: ap_words_def)
  then show ?thesis
    unfolding rule_ap_def startswith_def by simp
qed

lemma categorize_bank_rules:
  "categorize_bank r col_text col_type =
     (let T = normalize_text (row_get r col_text); I = normalize_text (row_get r col_type) in
      if rule_nc_bank T then ''NC Bank''
      else if rule_119 T then ''119''
      else if rule_117 T then ''117''
      else if rule_153 T then ''153''
      else if rule_ap T I then ''AP''
      else if rule_tax T I then ''TAX''
      else ''UNMATCHED'')"
  unfolding categorize_bank_def Let_def rule_nc_bank_code rule_119_code rule_ap_code
  unfolding rule_117_def rule_153_def rule_tax_def
  by (rule refl)

lemma bank_chain_refines:
  "categorize_bank r col_text col_type =
     first_match spec_bank_chain
       (normalize_text (row_get r col_text), normalize_text (row_get r col_type))"
  by (simp add: categorize_bank_rules Let_def spec_bank_chain_def)

lemma normalize_text_nontext: "\<not> isinstance_str v \<Longrightarrow> normalize_text v = []"
  by (cases v) (simp_all add: normalize_text_def)

lemma normalize_text_empty: "normalize_text (Text []) = []"
  by (simp add: text_defs)

lemma absent_or_nontext_normalize:
  "absent_or_nontext r key \<Longrightarrow> normalize_text (row_get r key) = []"
  by (auto simp: absent_or_nontext_def row_get_def normalize_text_empty
      normalize_text_nontext split: option.splits)

subsection \<open>Normalization\<close>

lemma isspace_space [simp]: "isspace (CHR '' '')"
  by (simp add: isspace_def)

lemma upper_char_idem [simp]: "upper_char (upper_char c) = upper_char c"
  by (simp add: upper_char_def)

lemma isspace_upper_char [simp]: "isspace (upper_char c) = isspace c"
  by (simp add: upper_char_def isspace_def)

lemma upper_char_space [simp]: "upper_char (CHR '' '') = CHR '' ''"
  by (simp add: upper_char_def)

lemma upper_idem [simp]: "upper (upper s) = upper s"
  by (simp add: upper_def)

lemma upper_append [simp]: "upper (a @ b) = upper a @ upper b"
  by (simp add: upper_def)

lemma upper_Cons [simp]: "upper (c # cs) = upper_char c # upper cs"
  by (simp add: upper_def)

lemma upper_Nil [simp]: "upper [] = []"
  by (simp add: upper_def)


lemma ws_words_dropWhile [simp]: "ws_words (dropWhile isspace s) = ws_words s"
  by (induction s) auto









lemma rstrip_Nil [simp]: "rstrip [] = []"
  by (simp add: rstrip_def)








subsection \<open>Aggregation and the script\<close>












lemma run_script_stopped:
  assumes "find_col (columns bank_df) ''Text'' = None
    \<or> find_col (columns bank_df) ''Data Type'' = None
    \<or> find_col (columns bank_df) ''Revsd amt'' = None"
  shows "run_script f msg gl_df bank_df =
    \<lparr>gl_remark = Some (map f (rows gl_df)), bank_remark = None, summary_df = None,
     outcome = Stopped (msg @ repr_list (columns bank_df))\<rparr>"
  using assms by (auto simp: run_script_def Let_def)

section \<open>Properties of the classifiers\<close>

text \<open>
  C1. For every bank row, \<open>categorize_bank\<close> returns the label of the first rule of the
  chain NC Bank, 119, 117, 153, AP, TAX whose predicate holds on the normalized text and
  the normalized type, and \<open>UNMATCHED\<close> when none holds. A row whose normalized text
  holds all four NC-Bank keywords is labelled \<open>NC Bank\<close>, also when it meets the AP
  conditions of rule 5.
\<close>

theorem categorize_bank_first_match:
  fixes r :: row and col_text col_type :: cell
  defines "T \<equiv> normalize_text (row_get r col_text)"
    and "I \<equiv> normalize_text (row_get r col_type)"
  shows "categorize_bank r col_text col_type = first_match spec_bank_chain (T, I)
    \<and> (rule_nc_bank T \<and> rule_ap T I \<longrightarrow> categorize_bank r col_text col_type = ''NC Bank'')
    \<and> (rule_nc_bank T \<longrightarrow> categorize_bank r col_text col_type = ''NC Bank'')"
  unfolding T_def I_def
  by (simp add: bank_chain_refines spec_bank_chain_def)

theorem categorize_bank_first_match_witness:
  "rule_nc_bank (normalize_text (row_get bank_row_nc_and_ap (Text ''Text'')))
   \<and> rule_ap (normalize_text (row_get bank_row_nc_and_ap (Text ''Text'')))
       (normalize_text (row_get bank_row_nc_and_ap (Text ''Data Type'')))
   \<and> categorize_bank bank_row_nc_and_ap (Text ''Text'') (Text ''Data Type'') = ''NC Bank''"
proof -
  have nc: "rule_nc_bank (normalize_text (row_get bank_row_nc_and_ap (Text ''Text'')))"
    by code_simp
  have ap: "rule_ap (normalize_text (row_get bank_row_nc_and_ap (Text ''Text'')))
       (normalize_text (row_get bank_row_nc_and_ap (Text ''Data Type'')))"
    by code_simp
  from nc ap
    categorize_bank_first_match [of bank_row_nc_and_ap "Text ''Text''" "Text ''Data Type''"]
  show ?thesis by blast
qed


text \<open>
  C3. Both classifiers are total functions without a failing branch, and for every row,
  whatever its fields hold (text, nothing, a null, a number), the label they return is one
  of the seven labels.
\<close>

theorem classifiers_closed_labels:
  "categorize_gl r \<in> labels \<and> categorize_gl_lc r \<in> labels
   \<and> categorize_bank r col_text col_type \<in> labels"
  by (simp add: categorize_gl_def categorize_gl_lc_def categorize_bank_rules Let_def labels_def)

text \<open>
  C4 (as stated). The claim has the two copies of the GL classifier differ exactly on the
  rows whose upper-cased source holds \<open>TAX\<close> and not \<open>H11\<close>. The row with Source
  \<open>TAX\<close> and description \<open>117\<close> is such a row, and both copies label it \<open>117\<close>.
\<close>

theorem categorize_gl_variants_counterexample:
  "str_in ''TAX'' (gl_source gl_row_tax_117)
   \<and> \<not> str_in ''H11'' (gl_source gl_row_tax_117)
   \<and> categorize_gl gl_row_tax_117 = ''117''
   \<and> categorize_gl_lc gl_row_tax_117 = ''117''"
  by code_simp

text \<open>
  C4 (amended). The two copies of the GL classifier return different labels exactly on
  the rows on which none of the rules 1 to 5 matches (the upper-cased description holds
  none of \<open>117\<close>, \<open>153\<close>, \<open>119\<close>, \<open>NC BANK\<close> and the upper-cased source does not hold
  \<open>AP\<close>) and whose upper-cased source holds \<open>TAX\<close> and not \<open>H11\<close>; there the copy of
  \<open>GL_BANK_LANGCHAIN.py\<close> returns \<open>TAX\<close> and the copy of
  \<open>gl_bank_agentic_model.py\<close> returns \<open>UNMATCHED\<close>. On every other row they agree.
\<close>

theorem categorize_gl_variants_differ_iff:
  fixes r :: row
  defines "source \<equiv> upper (py_str (row_get r (Text ''Source'')))"
    and "desc \<equiv> upper (py_str (row_get r (Text ''Journal Line Description'')))"
  defines "only_tax \<equiv>
      \<not> str_in ''117'' desc \<and> \<not> str_in ''153'' desc \<and> \<not> str_in ''119'' desc
      \<and> \<not> str_in ''NC BANK'' desc \<and> \<not> str_in ''AP'' source
      \<and> str_in ''TAX'' source \<and> \<not> str_in ''H11'' source"
  shows "(categorize_gl r \<noteq> categorize_gl_lc r \<longleftrightarrow> only_tax)
    \<and> (only_tax \<longrightarrow> categorize_gl_lc r = ''TAX'' \<and> categorize_gl r = ''UNMATCHED'')"
  unfolding only_tax_def source_def desc_def
  by (simp add: categorize_gl_def categorize_gl_lc_def gl_defs Let_def)

theorem categorize_gl_variants_differ_iff_witness:
  "categorize_gl gl_row_tax_only \<noteq> categorize_gl_lc gl_row_tax_only
   \<and> categorize_gl_lc gl_row_tax_only = ''TAX''
   \<and> categorize_gl gl_row_tax_only = ''UNMATCHED''"
proof -
  have "\<not> str_in ''117'' (upper (py_str (row_get gl_row_tax_only (Text ''Journal Line Description''))))
      \<and> \<not> str_in ''153'' (upper (py_str (row_get gl_row_tax_only (Text ''Journal Line Description''))))
      \<and> \<not> str_in ''119'' (upper (py_str (row_get gl_row_tax_only (Text ''Journal Line Description''))))
      \<and> \<not> str_in ''NC BANK'' (upper (py_str (row_get gl_row_tax_only (Text ''Journal Line Description''))))
      \<and> \<not> str_in ''AP'' (upper (py_str (row_get gl_row_tax_only (Text ''Source''))))
      \<and> str_in ''TAX'' (upper (py_str (row_get gl_row_tax_only (Text ''Source''))))
      \<and> \<not> str_in ''H11'' (upper (py_str (row_get gl_row_tax_only (Text ''Source''))))"
    by code_simp
  with categorize_gl_variants_differ_iff [of gl_row_tax_only]
  show ?thesis by blast
qed

text \<open>
  C5. For every bank row on which none of the rules 1 to 5 matches, \<open>categorize_bank\<close>
  returns \<open>TAX\<close> if and only if the normalized text holds \<open>TAX\<close> followed by a space
  or holds \<open>TAXPAY\<close>, and the normalized type equals \<open>DETAIL DEBITS\<close>. The row with
  Text \<open>TAXPAY Q3 ESTIMATE\<close> is labelled \<open>TAX\<close> with Data Type \<open>Detail Debits\<close> and
  \<open>UNMATCHED\<close> with Data Type \<open>Detail Credits\<close>.
\<close>

theorem categorize_bank_tax_rule:
  fixes r :: row and col_text col_type :: cell
  defines "T \<equiv> normalize_text (row_get r col_text)"
    and "I \<equiv> normalize_text (row_get r col_type)"
  shows "(\<not> rule_nc_bank T \<and> \<not> rule_119 T \<and> \<not> rule_117 T \<and> \<not> rule_153 T \<and> \<not> rule_ap T I
      \<longrightarrow> (categorize_bank r col_text col_type = ''TAX''
           \<longleftrightarrow> (str_in ''TAX '' T \<or> str_in ''TAXPAY'' T) \<and> I = ''DETAIL DEBITS''))
    \<and> categorize_bank (bank_row ''TAXPAY Q3 ESTIMATE'' ''Detail Debits'')
        (Text ''Text'') (Text ''Data Type'') = ''TAX''
    \<and> categorize_bank (bank_row ''TAXPAY Q3 ESTIMATE'' ''Detail Credits'')
        (Text ''Text'') (Text ''Data Type'') = ''UNMATCHED''"
proof -
  have "\<not> rule_nc_bank T \<and> \<not> rule_119 T \<and> \<not> rule_117 T \<and> \<not> rule_153 T \<and> \<not> rule_ap T I
      \<longrightarrow> (categorize_bank r col_text col_type = ''TAX''
           \<longleftrightarrow> (str_in ''TAX '' T \<or> str_in ''TAXPAY'' T) \<and> I = ''DETAIL DEBITS'')"
    unfolding T_def I_def by (simp add: categorize_bank_rules Let_def rule_tax_def)
  moreover have "categorize_bank (bank_row ''TAXPAY Q3 ESTIMATE'' ''Detail Debits'')
        (Text ''Text'') (Text ''Data Type'') = ''TAX''"
    by code_simp
  moreover have "categorize_bank (bank_row ''TAXPAY Q3 ESTIMATE'' ''Detail Credits'')
        (Text ''Text'') (Text ''Data Type'') = ''UNMATCHED''"
    by code_simp
  ultimately show ?thesis by blast
qed

theorem categorize_bank_tax_rule_witness:
  "(categorize_bank (bank_row ''Sales tax  remittance'' ''detail debits'')
      (Text ''Text'') (Text ''Data Type'') = ''TAX'')
   = ((str_in ''TAX ''
         (normalize_text (row_get (bank_row ''Sales tax  remittance'' ''detail debits'') (Text ''Text'')))
       \<or> str_in ''TAXPAY''
         (normalize_text (row_get (bank_row ''Sales tax  remittance'' ''detail debits'') (Text ''Text''))))
      \<and> normalize_text (row_get (bank_row ''Sales tax  remittance'' ''detail debits'') (Text ''Data Type''))
        = ''DETAIL DEBITS'')
   \<and> categorize_bank (bank_row ''Sales tax  remittance'' ''detail debits'')
      (Text ''Text'') (Text ''Data Type'') = ''TAX''"
proof -
  let ?r = "bank_row ''Sales tax  remittance'' ''detail debits''"
  let ?T = "normalize_text (row_get ?r (Text ''Text''))"
  let ?I = "normalize_text (row_get ?r (Text ''Data Type''))"
  have none: "\<not> rule_nc_bank ?T \<and> \<not> rule_119 ?T \<and> \<not> rule_117 ?T \<and> \<not> rule_153 ?T
      \<and> \<not> rule_ap ?T ?I"
    by code_simp
  have tax: "(str_in ''TAX '' ?T \<or> str_in ''TAXPAY'' ?T) \<and> ?I = ''DETAIL DEBITS''"
    by code_simp
  from none tax categorize_bank_tax_rule [of ?r "Text ''Text''" "Text ''Data Type''"]
  show ?thesis by blast
qed

text \<open>
  C10. For every bank row whose text cell and type cell are both absent or hold no text,
  both are normalized to the empty string and \<open>categorize_bank\<close> (the same function in
  both files) returns \<open>UNMATCHED\<close>.
\<close>

theorem categorize_bank_blank_unmatched:
  assumes "absent_or_nontext r col_text" and "absent_or_nontext r col_type"
  shows "normalize_text (row_get r col_text) = []
    \<and> normalize_text (row_get r col_type) = []
    \<and> categorize_bank r col_text col_type = ''UNMATCHED''"
proof -
  have T: "normalize_text (row_get r col_text) = []"
    using assms(1) by (rule absent_or_nontext_normalize)
  have I: "normalize_text (row_get r col_type) = []"
    using assms(2) by (rule absent_or_nontext_normalize)
  have "categorize_bank r col_text col_type = ''UNMATCHED''"
    by (simp add: categorize_bank_def Let_def T I nc_keywords_def keywords_119_def
        ap_words_def startswith_def)
  with T I show ?thesis by simp
qed

theorem categorize_bank_blank_unmatched_witness:
  "absent_or_nontext bank_row_blank (Text ''Text'')
   \<and> absent_or_nontext bank_row_blank (Text ''Data Type'')
   \<and> absent_or_nontext Map.empty (Text ''Text'')
   \<and> categorize_bank bank_row_blank (Text ''Text'') (Text ''Data Type'') = ''UNMATCHED''
   \<and> categorize_bank Map.empty (Text ''Text'') (Text ''Data Type'') = ''UNMATCHED''"
proof -
  have a: "absent_or_nontext bank_row_blank (Text ''Text'')"
    and b: "absent_or_nontext bank_row_blank (Text ''Data Type'')"
    by (simp_all add: absent_or_nontext_def bank_row_blank_def)
  have c: "absent_or_nontext Map.empty k" for k
    by (simp add: absent_or_nontext_def)
  from a b c categorize_bank_blank_unmatched [OF a b] categorize_bank_blank_unmatched [OF c c]
  show ?thesis by blast
qed

section \<open>Properties of the text normalizer\<close>



section \<open>Properties of the summary and of the missing-column error\<close>



text \<open>
  C7 (as stated). The claim has the error report the key that could not be resolved. For
  a bank table with the columns \<open>Text\<close>, \<open>Data Type\<close> and \<open>Amount\<close> the key
  \<open>Revsd amt\<close> is not resolved, and the message of either script lists the columns but
  does not name that key. The GL rows have been labelled by then.
\<close>

theorem missing_column_message_counterexample:
  "find_col (columns bank_no_amount) ''Revsd amt'' = None
   \<and> outcome (run_agentic gl_sample bank_no_amount)
       = Stopped ''Could not detect needed columns in Bank file. Columns found: ['Text', 'Data Type', 'Amount']''
   \<and> \<not> str_in ''Revsd amt''
         ''Could not detect needed columns in Bank file. Columns found: ['Text', 'Data Type', 'Amount']''
   \<and> outcome (run_langchain gl_sample bank_no_amount)
       = Stopped ''Bank file missing required columns! Found: ['Text', 'Data Type', 'Amount']''
   \<and> \<not> str_in ''Revsd amt''
         ''Bank file missing required columns! Found: ['Text', 'Data Type', 'Amount']''
   \<and> gl_remark (run_agentic gl_sample bank_no_amount) = Some [''AP'', ''117'', ''AP'']"
  by code_simp

text \<open>
  C7 (amended). Whenever one of the three keys \<open>Text\<close>, \<open>Data Type\<close>, \<open>Revsd amt\<close>
  is not resolved among the column labels of the bank table, the run of either script
  stops with an error message that is a fixed text followed by the full list of the
  column labels found (the message does not name the key); the GL rows have been
  labelled, no bank row is classified and no summary table is built.
\<close>

theorem missing_column_stops:
  assumes "find_col (columns bank_df) ''Text'' = None
    \<or> find_col (columns bank_df) ''Data Type'' = None
    \<or> find_col (columns bank_df) ''Revsd amt'' = None"
  shows "run_agentic gl_df bank_df =
      \<lparr>gl_remark = Some (map categorize_gl (rows gl_df)), bank_remark = None,
       summary_df = None,
       outcome = Stopped (''Could not detect needed columns in Bank file. Columns found: ''
                          @ repr_list (columns bank_df))\<rparr>
    \<and> run_langchain gl_df bank_df =
      \<lparr>gl_remark = Some (map categorize_gl_lc (rows gl_df)), bank_remark = None,
       summary_df = None,
       outcome = Stopped (''Bank file missing required columns! Found: ''
                          @ repr_list (columns bank_df))\<rparr>"
  unfolding run_agentic_def run_langchain_def
  using assms by (simp only: run_script_stopped simp_thms)

theorem missing_column_stops_witness:
  "find_col (columns bank_no_amount) ''Revsd amt'' = None
   \<and> summary_df (run_agentic gl_sample bank_no_amount) = None
   \<and> bank_remark (run_agentic gl_sample bank_no_amount) = None
   \<and> summary_df (run_langchain gl_sample bank_no_amount) = None
   \<and> outcome (run_langchain gl_sample bank_no_amount)
       = Stopped (''Bank file missing required columns! Found: ''
                  @ repr_list (columns bank_no_amount))"
proof -
  have h: "find_col (columns bank_no_amount) ''Revsd amt'' = None" by code_simp
  then have "find_col (columns bank_no_amount) ''Text'' = None
    \<or> find_col (columns bank_no_amount) ''Data Type'' = None
    \<or> find_col (columns bank_no_amount) ''Revsd amt'' = None" by simp
  from missing_column_stops [OF this, of gl_sample] h show ?thesis by simp
qed

end
